theory Spec2Isabelle
  imports Complex_Main "HOL-Library.Word"
begin

text \<open>
  The password toolkit: a class with a constructor that validates its settings,
  \<open>checkOptions\<close> and \<open>generate\<close> for random passwords over four alphabets, and
  \<open>evaluate\<close>, a classifier that returns the first of seven rules a password falls
  under. What follows embeds the JavaScript source function by function, exceptions as
  \<open>Inl\<close>, and then proves what the specification says about it.
\<close>

section \<open>JavaScript values\<close>

text \<open>
  A JavaScript string is a sequence of UTF-16 code units; the regular expressions of the
  library have no \<open>u\<close> flag, so they work on code units as well.
\<close>

type_synonym cu = "16 word"
type_synonym jsstring = "cu list"

definition js :: "string \<Rightarrow> jsstring" where
  \<comment> \<open>an ASCII literal of the source as code units\<close>
  "js s = map (\<lambda>c. of_nat (of_char c)) s"

text \<open>
  A Number is a double. The finite doubles are rationals, so every double is a value of
  \<open>jsnum\<close>; \<open>-0\<close> and \<open>+0\<close> are one value (the library only compares numbers and tests
  them for truthiness, where the two zeros agree). No arithmetic on doubles is modelled:
  the one product the library computes is left to the host, see below.
\<close>

datatype jsnum = NaN | NegInf | Fin rat | PosInf

fun num_lt :: "jsnum \<Rightarrow> jsnum \<Rightarrow> bool" where
  \<comment> \<open>\<open>a < b\<close> on Numbers: false as soon as one side is NaN\<close>
  "num_lt NaN b = False"
| "num_lt a NaN = False"
| "num_lt a NegInf = False"
| "num_lt NegInf b = True"
| "num_lt PosInf b = False"
| "num_lt (Fin x) PosInf = True"
| "num_lt (Fin x) (Fin y) = (x < y)"

text \<open>
  The values the library is called with: primitives, arrays and plain objects (an
  association list of own properties, in insertion order). Functions, symbols, BigInts,
  sparse arrays, accessors and prototypes other than the built-in ones are not modelled.
\<close>

datatype jsval =
    Undefined
  | Null
  | Bool bool
  | Number jsnum
  | String jsstring
  | Array "jsval list"
  | Object "(string \<times> jsval) list"

datatype error = TypeError string | RangeError string

fun typeof :: "jsval \<Rightarrow> string" where
  "typeof Undefined = ''undefined''"
| "typeof Null = ''object''"
| "typeof (Bool b) = ''boolean''"
| "typeof (Number n) = ''number''"
| "typeof (String s) = ''string''"
| "typeof (Array xs) = ''object''"
| "typeof (Object ps) = ''object''"

fun Reflect_has :: "jsval \<Rightarrow> string \<Rightarrow> error + bool" where
  \<comment> \<open>\<open>Reflect.has(target, key)\<close> throws unless the target is an object; none of the keys
      the library asks for is a property of \<open>Array.prototype\<close> or \<open>Object.prototype\<close>\<close>
  "Reflect_has (Object ps) k = Inr (k \<in> fst ` set ps)"
| "Reflect_has (Array xs) k = Inr False"
| "Reflect_has v k = Inl (TypeError ''Reflect.has called on non-object'')"

fun get :: "jsval \<Rightarrow> string \<Rightarrow> jsval" where
  \<comment> \<open>\<open>target.key\<close> for the keys the library reads from settings and options\<close>
  "get (Object ps) k = (case map_of ps k of Some v \<Rightarrow> v | None \<Rightarrow> Undefined)"
| "get v k = Undefined"

fun truthy :: "jsval \<Rightarrow> bool" where
  "truthy Undefined = False"
| "truthy Null = False"
| "truthy (Bool b) = b"
| "truthy (Number n) = (n \<noteq> NaN \<and> n \<noteq> Fin 0)"
| "truthy (String s) = (s \<noteq> [])"
| "truthy (Array xs) = True"
| "truthy (Object ps) = True"

definition index :: "jsval list \<Rightarrow> nat \<Rightarrow> jsval" where
  \<comment> \<open>\<open>array[i]\<close>: undefined out of range\<close>
  "index xs i = (if i < length xs then xs ! i else Undefined)"

text \<open>
  \<open>ToNumber\<close> on a string parses it and rounds to a double, on an array or an object it
  calls \<open>valueOf\<close> and \<open>toString\<close> and may throw. The product of two doubles is the
  double nearest to the exact product. Neither is modelled: the conversion of these three
  kinds of value and the product of two finite doubles are parameters, and every result
  below holds for every such pair of functions.
\<close>

record host =
  to_number :: "jsval \<Rightarrow> error + jsnum"
  multiply :: "rat \<Rightarrow> rat \<Rightarrow> rat"

fun ToNumber :: "host \<Rightarrow> jsval \<Rightarrow> error + jsnum" where
  "ToNumber h Undefined = Inr NaN"
| "ToNumber h Null = Inr (Fin 0)"
| "ToNumber h (Bool b) = Inr (Fin (if b then 1 else 0))"
| "ToNumber h (Number n) = Inr n"
| "ToNumber h v = to_number h v"

definition less_than :: "host \<Rightarrow> jsval \<Rightarrow> jsnum \<Rightarrow> error + bool" where
  \<comment> \<open>\<open>v < n\<close> with a Number on the right\<close>
  "less_than h v n = (case ToNumber h v of Inl e \<Rightarrow> Inl e | Inr m \<Rightarrow> Inr (num_lt m n))"

definition greater_than :: "host \<Rightarrow> jsval \<Rightarrow> jsnum \<Rightarrow> error + bool" where
  \<comment> \<open>\<open>v > n\<close> with a Number on the right\<close>
  "greater_than h v n = (case ToNumber h v of Inl e \<Rightarrow> Inl e | Inr m \<Rightarrow> Inr (num_lt n m))"

section \<open>Regular expressions\<close>

text \<open>
  The fragment of the regular expressions of ECMAScript that \<open>constants.js\<close> uses:
  single-character matchers, one capture group and its backreference, concatenation
  and quantifiers. \<open>matches r (c, s)\<close> lists every way \<open>r\<close> can match a prefix of \<open>s\<close>
  when group 1 holds \<open>c\<close>: the capture and the rest of the input after each match.
  \<open>test\<close> only asks whether some match exists, so the order in which a greedy or a lazy
  quantifier tries its alternatives does not matter. No pattern of the library puts a
  group under a quantifier.
\<close>

datatype citem =
    Range cu cu  \<comment> \<open>\<open>a-z\<close>\<close>
  | Single cu    \<comment> \<open>one character\<close>
  | ClassD       \<comment> \<open>\<open>\d\<close>\<close>
  | ClassNotW    \<comment> \<open>\<open>\W\<close>\<close>

datatype regex =
    Dot                                 \<comment> \<open>\<open>.\<close>\<close>
  | Class "citem list"                  \<comment> \<open>\<open>[...]\<close>; \<open>\d\<close> alone is \<open>Class [ClassD]\<close>\<close>
  | Group regex                         \<comment> \<open>\<open>(...)\<close>, capture group 1\<close>
  | Backref                             \<comment> \<open>\<open>\1\<close>\<close>
  | Cat regex regex                     \<comment> \<open>concatenation\<close>
  | Quant regex nat "nat option" bool   \<comment> \<open>\<open>r{lo,hi}\<close>, no upper bound when \<open>None\<close>;
                                            the flag is set on a lazy quantifier\<close>

definition is_digit :: "cu \<Rightarrow> bool" where
  "is_digit c = (0x30 \<le> c \<and> c \<le> 0x39)"

definition is_upper :: "cu \<Rightarrow> bool" where
  "is_upper c = (0x41 \<le> c \<and> c \<le> 0x5A)"

definition is_lower :: "cu \<Rightarrow> bool" where
  "is_lower c = (0x61 \<le> c \<and> c \<le> 0x7A)"

definition is_word :: "cu \<Rightarrow> bool" where
  \<comment> \<open>\<open>\w\<close>: \<open>[A-Za-z0-9_]\<close>\<close>
  "is_word c = (is_lower c \<or> is_upper c \<or> is_digit c \<or> c = 0x5F)"

definition is_line_terminator :: "cu \<Rightarrow> bool" where
  \<comment> \<open>LF, CR, LS, PS: what \<open>.\<close> does not match\<close>
  "is_line_terminator c = (c = 0x0A \<or> c = 0x0D \<or> c = 0x2028 \<or> c = 0x2029)"

fun in_item :: "cu \<Rightarrow> citem \<Rightarrow> bool" where
  "in_item c (Range a b) = (a \<le> c \<and> c \<le> b)"
| "in_item c (Single a) = (c = a)"
| "in_item c ClassD = is_digit c"
| "in_item c ClassNotW = (\<not> is_word c)"

definition one_char :: "(cu \<Rightarrow> bool) \<Rightarrow> jsstring option \<times> jsstring \<Rightarrow> (jsstring option \<times> jsstring) list" where
  "one_char p st = (case snd st of [] \<Rightarrow> [] | x # xs \<Rightarrow> if p x then [(fst st, xs)] else [])"

definition backref :: "jsstring option \<times> jsstring \<Rightarrow> (jsstring option \<times> jsstring) list" where
  \<comment> \<open>a backreference to a group that has not matched succeeds on the empty string\<close>
  "backref st = (case fst st of
       None \<Rightarrow> [st]
     | Some w \<Rightarrow> if take (length w) (snd st) = w then [(fst st, drop (length w) (snd st))] else [])"

primrec iterate :: "nat \<Rightarrow> ('a \<Rightarrow> 'a list) \<Rightarrow> 'a \<Rightarrow> 'a list" where
  \<comment> \<open>the outcomes of exactly \<open>n\<close> iterations\<close>
  "iterate 0 f st = [st]"
| "iterate (Suc n) f st = concat (map (iterate n f) (f st))"

primrec matches :: "regex \<Rightarrow> jsstring option \<times> jsstring \<Rightarrow> (jsstring option \<times> jsstring) list" where
  "matches Dot = one_char (\<lambda>c. \<not> is_line_terminator c)"
| "matches (Class items) = one_char (\<lambda>c. list_ex (in_item c) items)"
| "matches (Group r) = (\<lambda>st.
     map (\<lambda>st'. (Some (take (length (snd st) - length (snd st')) (snd st)), snd st')) (matches r st))"
| "matches Backref = backref"
| "matches (Cat r1 r2) = (\<lambda>st. concat (map (matches r2) (matches r1 st)))"
| "matches (Quant r lo hi lazy) = (\<lambda>st.
     concat (map (\<lambda>n. iterate n (matches r) st)
       [lo ..< Suc (case hi of Some m \<Rightarrow> m | None \<Rightarrow> lo + length (snd st))]))"

definition test :: "regex \<Rightarrow> jsstring \<Rightarrow> bool" where
  \<comment> \<open>\<open>RegExp.prototype.test\<close> of a pattern without flags: a match may start anywhere\<close>
  "test r s = list_ex (\<lambda>i. matches r (None, drop i s) \<noteq> []) [0 ..< Suc (length s)]"

section \<open>constants.js\<close>

definition regexps_numbers :: regex where
  \<comment> \<open>\<open>/\d/\<close>\<close>
  "regexps_numbers = Class [ClassD]"

definition regexps_symbols :: regex where
  \<comment> \<open>\<open>/[\W_]/\<close>\<close>
  "regexps_symbols = Class [ClassNotW, Single 0x5F]"

definition regexps_uppercases :: regex where
  \<comment> \<open>\<open>/[A-Z]/\<close>\<close>
  "regexps_uppercases = Class [Range 0x41 0x5A]"

definition regexps_lowercases :: regex where
  \<comment> \<open>\<open>/[a-z]/\<close>\<close>
  "regexps_lowercases = Class [Range 0x61 0x7A]"

definition regexps_repeated :: regex where
  \<comment> \<open>\<open>/(.).*?\1/\<close>\<close>
  "regexps_repeated = Cat (Group Dot) (Cat (Quant Dot 0 None True) Backref)"

definition letter :: regex where
  \<comment> \<open>\<open>[A-Za-z]\<close>\<close>
  "letter = Class [Range 0x41 0x5A, Range 0x61 0x7A]"

definition alnum :: regex where
  \<comment> \<open>\<open>[A-Za-z\d]\<close>\<close>
  "alnum = Class [Range 0x41 0x5A, Range 0x61 0x7A, ClassD]"

definition patterns :: "regex list" where
  \<open>patterns =
    [ Quant (Class [ClassD]) 4 (Some 4) False,                      \<comment> \<open>\<open>/\d{4}/\<close>\<close>
      Quant (Class [ClassD]) 6 (Some 6) False,                      \<comment> \<open>\<open>/\d{6}/\<close>\<close>
      Quant letter 4 (Some 4) False,                                \<comment> \<open>\<open>/[A-Za-z]{4}/\<close>\<close>
      Quant letter 6 (Some 6) False,                                \<comment> \<open>\<open>/[A-Za-z]{6}/\<close>\<close>
      Cat (Group alnum) (Quant Backref 2 None False),               \<comment> \<open>\<open>/([A-Za-z\d])\1{2,}/\<close>\<close>
      Cat (Quant letter 1 None False)
        (Cat (Quant (Class [ClassD]) 1 None False)
          (Quant letter 0 None False)),                             \<comment> \<open>\<open>/[A-Za-z]+\d+[A-Za-z]*/\<close>\<close>
      Cat (Quant letter 0 None False)
        (Cat (Quant (Class [ClassD]) 1 None False)
          (Quant letter 1 None False)),                             \<comment> \<open>\<open>/[A-Za-z]*\d+[A-Za-z]+/\<close>\<close>
      Cat (Group alnum) (Quant Backref 3 None False) ]              \<comment> \<open>\<open>/([A-Za-z\d])\1{3,}/\<close>\<close>\<close>

section \<open>defaults.js\<close>

definition suggestions_default :: "jsval list" where
  "suggestions_default =
    [ String (js ''The password must have at least 8 characters.''),
      String (js ''Add uppercase and lowercase letters to make the password more secure.''),
      String (js ''Add numbers to make the password more secure.''),
      String (js ''Add symbols to make the password more secure.''),
      String (js ''Avoid using repeated characters in the password.''),
      String (js ''Avoid using common password patterns.''),
      String (js ''Excellent! The password is secure.'') ]"

definition qualities_default :: "jsval list" where
  "qualities_default =
    [ String (js ''insecure''), String (js ''low''), String (js ''medium''),
      String (js ''high''), String (js ''perfect'') ]"

section \<open>functions.js\<close>

definition numbers :: jsstring where
  "numbers = js ''0123456789''"

definition symbols :: jsstring where
  \<comment> \<open>the 32 characters \<open>!\<close> to \<open>/\<close>, \<open>:\<close> to \<open>@\<close>, \<open>[\<close> to \<open>`\<close> and \<open>{\<close> to \<open>~\<close>, in the order of the source\<close>
  "symbols =
    [ 0x21, 0x22, 0x23, 0x24, 0x25, 0x26, 0x27, 0x28, 0x29, 0x2A, 0x2B, 0x2C, 0x2D, 0x2E, 0x2F,
      0x3A, 0x3B, 0x3C, 0x3D, 0x3E, 0x3F, 0x40,
      0x5B, 0x5C, 0x5D, 0x5E, 0x5F, 0x60,
      0x7B, 0x7C, 0x7D, 0x7E ]"

definition lowercases :: jsstring where
  "lowercases = js ''abcdefghijklmnopqrstuvwxyz''"

definition uppercases :: jsstring where
  "uppercases = js ''ABCDEFGHIJKLMNOPQRSTUVWXYZ''"

definition getRandomNumber :: "host \<Rightarrow> rat \<Rightarrow> nat \<Rightarrow> int" where
  \<comment> \<open>\<open>Math.floor(Math.random() * size)\<close>, for the value \<open>r\<close> that \<open>Math.random()\<close> returned;
      the product is the double that the host computes, the floor of a double is exact\<close>
  "getRandomNumber h r sz = \<lfloor>multiply h r (of_nat sz)\<rfloor>"

definition getSelectedChars :: "jsval \<Rightarrow> (string \<times> jsstring) list" where
  \<comment> \<open>spreading a falsy flag adds nothing\<close>
  "getSelectedChars options =
     (if truthy (get options ''numbers'') then [(''numbers'', numbers)] else []) @
     (if truthy (get options ''symbols'') then [(''symbols'', symbols)] else []) @
     (if truthy (get options ''uppercases'') then [(''uppercases'', uppercases)] else []) @
     (if truthy (get options ''lowercases'') then [(''lowercases'', lowercases)] else [])"

definition charsToArray :: "(string \<times> jsstring) list \<Rightarrow> jsstring" where
  \<comment> \<open>the array of one-character strings, kept as the list of their characters\<close>
  "charsToArray selected = concat (map snd selected)"

fun everyString :: "jsval \<Rightarrow> error + bool" where
  \<comment> \<open>\<open>target.every(...)\<close>: only an array has the method\<close>
  "everyString (Array target) = Inr (list_all (\<lambda>item. typeof item = ''string'') target)"
| "everyString v = Inl (TypeError ''target.every is not a function'')"

section \<open>index.js: the class PasswordToolKit\<close>

record PasswordToolKit =
  suggestions :: "jsval list"
  qualities :: "jsval list"
  maximum :: jsnum

record OptionsValidation =
  ok :: bool
  reason :: jsval

record PasswordEvaluation =
  level :: nat
  quality :: jsval
  suggestion :: jsval

definition bind :: "error + 'a \<Rightarrow> ('a \<Rightarrow> error + 'b) \<Rightarrow> error + 'b" where
  \<comment> \<open>an exception ends the call\<close>
  "bind m f = (case m of Inl e \<Rightarrow> Inl e | Inr x \<Rightarrow> f x)"

fun isArray :: "jsval \<Rightarrow> bool" where
  "isArray (Array xs) = True"
| "isArray v = False"

fun length_of :: "jsval \<Rightarrow> error + jsval" where
  \<comment> \<open>\<open>value.length\<close>\<close>
  "length_of (Array xs) = Inr (Number (Fin (of_nat (length xs))))"
| "length_of (String s) = Inr (Number (Fin (of_nat (length s))))"
| "length_of Undefined = Inl (TypeError ''Cannot read properties of undefined'')"
| "length_of Null = Inl (TypeError ''Cannot read properties of null'')"
| "length_of v = Inr (get v ''length'')"

fun elements :: "jsval \<Rightarrow> jsval list" where
  "elements (Array xs) = xs"
| "elements v = []"

fun number_of :: "jsval \<Rightarrow> jsnum" where
  "number_of (Number n) = n"
| "number_of v = NaN"

definition has_and :: "jsval \<Rightarrow> string \<Rightarrow> error + bool \<Rightarrow> error + bool" where
  \<comment> \<open>\<open>Reflect.has(target, key) && rest\<close>: \<open>rest\<close> is evaluated only when the key is there\<close>
  "has_and target k rest = bind (Reflect_has target k) (\<lambda>has. if has then rest else Inr False)"

definition constructor :: "jsval \<Rightarrow> error + PasswordToolKit" where
  \<comment> \<open>\<open>new PasswordToolKit(settings)\<close>; the parameter defaults to \<open>{}\<close> when it is undefined.
      The instance keeps the validated values at their types: an array as the list of
      its elements, a Number as \<open>jsnum\<close>.\<close>
  \<open>constructor arg =
    (let settings = (if arg = Undefined then Object [] else arg) in
     if typeof settings \<noteq> ''object'' then
       Inl (TypeError ''The "options" must be an object.'')
     else bind (has_and settings ''suggestions'' (Inr (\<not> isArray (get settings ''suggestions'')))) (\<lambda>c1.
     if c1 then Inl (TypeError ''The "suggestions" value must be an array type.'')
     else bind (has_and settings ''qualities'' (Inr (\<not> isArray (get settings ''qualities'')))) (\<lambda>c2.
     if c2 then Inl (TypeError ''The "qualities" value must be an array type.'')
     else bind (has_and settings ''maximum'' (Inr (typeof (get settings ''maximum'') \<noteq> ''number''))) (\<lambda>c3.
     if c3 then Inl (TypeError ''The "maximum" value must be a number type.'')
     else bind (has_and settings ''suggestions''
                 (bind (everyString (get settings ''suggestions'')) (\<lambda>b. Inr (\<not> b)))) (\<lambda>c4.
     if c4 then Inl (TypeError ''All "suggestions" values must be a string type.'')
     else bind (has_and settings ''qualities''
                 (bind (everyString (get settings ''qualities'')) (\<lambda>b. Inr (\<not> b)))) (\<lambda>c5.
     if c5 then Inl (TypeError ''All "qualities" values must be a string type.'')
     else bind (has_and settings ''suggestions''
                 (bind (length_of (get settings ''suggestions'')) (\<lambda>n. Inr (n \<noteq> Number (Fin 7))))) (\<lambda>c6.
     if c6 then Inl (RangeError ''The "suggestions" elements number must be equal to 7.'')
     else bind (has_and settings ''qualities''
                 (bind (length_of (get settings ''qualities'')) (\<lambda>n. Inr (n \<noteq> Number (Fin 5))))) (\<lambda>c7.
     if c7 then Inl (RangeError ''The "qualities" elements number must be equal to 5.'')
     else Inr
       \<lparr> suggestions = elements (if truthy (get settings ''suggestions'')
                                 then get settings ''suggestions'' else Array suggestions_default),
         qualities = elements (if truthy (get settings ''qualities'')
                               then get settings ''qualities'' else Array qualities_default),
         maximum = number_of (if truthy (get settings ''maximum'')
                              then get settings ''maximum'' else Number (Fin 30)) \<rparr>))))))))\<close>

definition invalid :: "string \<Rightarrow> error + OptionsValidation" where
  \<comment> \<open>\<open>return { ok: false, reason: ... }\<close>\<close>
  "invalid msg = Inr \<lparr> ok = False, reason = String (js msg) \<rparr>"

definition not_boolean :: "jsval \<Rightarrow> string \<Rightarrow> error + bool" where
  \<comment> \<open>\<open>Reflect.has(options, key) && typeof options[key] !== 'boolean'\<close>\<close>
  "not_boolean options k = has_and options k (Inr (typeof (get options k) \<noteq> ''boolean''))"

definition checkOptions :: "host \<Rightarrow> PasswordToolKit \<Rightarrow> jsval \<Rightarrow> error + OptionsValidation" where
  \<open>checkOptions h this options =
    (if typeof options \<noteq> ''object'' then invalid ''Options must be an object.''
     else bind (Reflect_has options ''size'') (\<lambda>has_size.
     if \<not> has_size then invalid ''The "size" property is required.''
     else bind (less_than h (get options ''size'') (Fin 1)) (\<lambda>too_small.
     if too_small then invalid ''The password length must be greater than 1.''
     else bind (greater_than h (get options ''size'') (maximum this)) (\<lambda>too_large.
     if too_large then invalid ''The password length must be less than specified maximum.''
     else bind (not_boolean options ''numbers'') (\<lambda>b1.
     if b1 then invalid ''The "numbers" option must be a boolean.''
     else bind (not_boolean options ''symbols'') (\<lambda>b2.
     if b2 then invalid ''The "symbols" option must be a boolean.''
     else bind (not_boolean options ''uppercases'') (\<lambda>b3.
     if b3 then invalid ''The "uppercases" option must be a boolean.''
     else bind (not_boolean options ''lowercases'') (\<lambda>b4.
     if b4 then invalid ''The "lowercases" option must be a boolean.''
     else if \<not> truthy (get options ''numbers'') \<and> \<not> truthy (get options ''symbols'')
           \<and> \<not> truthy (get options ''uppercases'') \<and> \<not> truthy (get options ''lowercases'')
     then invalid ''You must select at least one option to generate the password.''
     else Inr \<lparr> ok = True, reason = Null \<rparr>))))))))\<close>

fun Array_of :: "jsval \<Rightarrow> error + jsval list" where
  \<comment> \<open>\<open>Array(len)\<close>: a Number must be an integer from 0 to \<open>2^32 - 1\<close> and gives that many
      empty slots; any other value becomes the only element\<close>
  "Array_of (Number (Fin q)) =
     (if of_int \<lfloor>q\<rfloor> = q \<and> 0 \<le> q \<and> q < 2 ^ 32 then Inr (replicate (nat \<lfloor>q\<rfloor>) Undefined)
      else Inl (RangeError ''Invalid array length''))"
| "Array_of (Number n) = Inl (RangeError ''Invalid array length'')"
| "Array_of v = Inr [v]"

definition fill :: "jsval list \<Rightarrow> jsval \<Rightarrow> jsval list" where
  "fill array v = map (\<lambda>x. v) array"

definition char_at :: "jsstring \<Rightarrow> int \<Rightarrow> jsval" where
  \<comment> \<open>\<open>chars[i]\<close>, a string of one character, or undefined out of range\<close>
  "char_at chars i = (if 0 \<le> i \<and> nat i < length chars then String [chars ! nat i] else Undefined)"

fun join :: "jsval list \<Rightarrow> jsstring" where
  \<comment> \<open>\<open>join('')\<close> of an array of strings and undefined, the only elements \<open>generate\<close>
      makes; undefined adds nothing\<close>
  "join [] = []"
| "join (String s # xs) = s @ join xs"
| "join (x # xs) = join xs"

definition generate :: "host \<Rightarrow> (nat \<Rightarrow> rat) \<Rightarrow> PasswordToolKit \<Rightarrow> jsval \<Rightarrow> error + jsval" where
  \<comment> \<open>\<open>random k\<close> is what the \<open>k\<close>-th call of \<open>Math.random()\<close> returns, a number from 0
      (included) to 1 (excluded); \<open>map\<close> calls it once for each element, in order\<close>
  "generate h random this options =
     bind (checkOptions h this options) (\<lambda>check.
     if \<not> ok check then Inr Null
     else bind (Array_of (get options ''size'')) (\<lambda>slots.
       let array = fill slots (String []);
           selectedChars = getSelectedChars options;
           chars = charsToArray selectedChars;
           password = join (map (\<lambda>k. char_at chars (getRandomNumber h (random k) (length chars)))
                                [0 ..< length array])
       in Inr (String password)))"

primrec common :: "regex list \<Rightarrow> jsstring \<Rightarrow> bool" where
  \<comment> \<open>the loop over the patterns: true at the first pattern that matches\<close>
  "common [] password = False"
| "common (p # ps) password = (if test p password then True else common ps password)"

definition evaluate_with :: "regex list \<Rightarrow> PasswordToolKit \<Rightarrow> jsval \<Rightarrow> error + PasswordEvaluation" where
  \<comment> \<open>\<open>evaluate\<close>, with the list of common patterns it loops over as a parameter\<close>
  \<open>evaluate_with pats this v =
    (case v of
       String password \<Rightarrow>
         if length password < 8 then
           Inr \<lparr> level = 0, quality = index (qualities this) 0, suggestion = index (suggestions this) 0 \<rparr>
         else if \<not> test regexps_lowercases password \<or> \<not> test regexps_uppercases password then
           Inr \<lparr> level = 1, quality = index (qualities this) 1, suggestion = index (suggestions this) 1 \<rparr>
         else if \<not> test regexps_numbers password then
           Inr \<lparr> level = 2, quality = index (qualities this) 1, suggestion = index (suggestions this) 2 \<rparr>
         else if \<not> test regexps_symbols password then
           Inr \<lparr> level = 3, quality = index (qualities this) 2, suggestion = index (suggestions this) 3 \<rparr>
         else if test regexps_repeated password then
           Inr \<lparr> level = 4, quality = index (qualities this) 3, suggestion = index (suggestions this) 4 \<rparr>
         else if common pats password then
           Inr \<lparr> level = 4, quality = index (qualities this) 3, suggestion = index (suggestions this) 5 \<rparr>
         else
           Inr \<lparr> level = 5, quality = index (qualities this) 4, suggestion = index (suggestions this) 6 \<rparr>
     | _ \<Rightarrow> Inl (TypeError ''The "password" value must be a string type.''))\<close>

definition evaluate :: "PasswordToolKit \<Rightarrow> jsval \<Rightarrow> error + PasswordEvaluation" where
  "evaluate = evaluate_with patterns"

section \<open>evaluate and the state it reads\<close>

text \<open>
  \<open>evaluate\<close> reads the two arrays of the instance, which the instance holds by
  reference, and calls \<open>test\<close> on the RegExp objects of \<open>constants.js\<close>, each of which
  has a \<open>lastIndex\<close> property. To say what a call leaves behind, \<open>evaluate\<close> is written
  once more, statement by statement, over a world that holds the elements of every array
  by its address and the \<open>lastIndex\<close> of every RegExp object, and returns the world after
  the call with its result.
\<close>

datatype regexp_name = Numbers | Symbols | Uppercases | Lowercases | Repeated | Pattern nat
  \<comment> \<open>the RegExp objects: the five of \<open>regexps\<close> and \<open>patterns[i]\<close>\<close>


record world =
  arrays :: "nat \<Rightarrow> jsval list"
  lastIndex :: "regexp_name \<Rightarrow> nat"







section \<open>Definitions used to state the properties\<close>

definition default_toolkit :: PasswordToolKit where
  \<comment> \<open>the instance that \<open>new PasswordToolKit()\<close> returns\<close>
  "default_toolkit =
     \<lparr> suggestions = suggestions_default, qualities = qualities_default, maximum = Fin 30 \<rparr>"

definition some_host :: host where
  \<comment> \<open>a host for the closed examples, none of which converts a string, an array or an object
      or multiplies\<close>
  "some_host = \<lparr> to_number = (\<lambda>v. Inr NaN), multiply = (\<lambda>a b. a * b) \<rparr>"

definition without_5_and_8 :: "regex list \<Rightarrow> regex list" where
  \<comment> \<open>a list of eight patterns without its fifth and its eighth\<close>
  "without_5_and_8 ps = take 4 ps @ take 2 (drop 5 ps)"


definition is_space :: "cu \<Rightarrow> bool" where
  \<comment> \<open>\<open>\s\<close>: the white space and line terminator code units\<close>
  "is_space c = (c \<in> set [0x09, 0x0A, 0x0B, 0x0C, 0x0D, 0x20, 0xA0, 0x1680, 0x2028, 0x2029,
                           0x202F, 0x205F, 0x3000, 0xFEFF] \<or> (0x2000 \<le> c \<and> c \<le> 0x200A))"

definition non_word_non_space :: "cu \<Rightarrow> bool" where
  \<comment> \<open>a symbol as row 4 of the table of section 4.4 words it\<close>
  "non_word_non_space c = (\<not> is_word c \<and> \<not> is_space c)"

definition flags :: "string list" where
  \<comment> \<open>the four options that select an alphabet\<close>
  "flags = [''numbers'', ''symbols'', ''uppercases'', ''lowercases'']"

definition boolean_or_absent :: "(string \<times> jsval) list \<Rightarrow> string \<Rightarrow> bool" where
  "boolean_or_absent ps k = (case map_of ps k of None \<Rightarrow> True | Some v \<Rightarrow> typeof v = ''boolean'')"

definition alphabet_of :: "jsval \<Rightarrow> cu set" where
  \<comment> \<open>the union of the alphabets whose flag is \<open>true\<close> in the options\<close>
  "alphabet_of options =
     (if get options ''numbers'' = Bool True then set numbers else {}) \<union>
     (if get options ''symbols'' = Bool True then set symbols else {}) \<union>
     (if get options ''uppercases'' = Bool True then set uppercases else {}) \<union>
     (if get options ''lowercases'' = Bool True then set lowercases else {})"

definition is_letter :: "cu \<Rightarrow> bool" where
  \<comment> \<open>\<open>[A-Za-z]\<close>\<close>
  "is_letter c = (is_upper c \<or> is_lower c)"

definition is_alnum :: "cu \<Rightarrow> bool" where
  \<comment> \<open>\<open>[A-Za-z\d]\<close>\<close>
  "is_alnum c = (is_letter c \<or> is_digit c)"

definition has_run :: "(cu \<Rightarrow> bool) \<Rightarrow> nat \<Rightarrow> jsstring \<Rightarrow> bool" where
  \<comment> \<open>\<open>n\<close> consecutive characters that all satisfy \<open>p\<close>\<close>
  "has_run p n s =
     list_ex (\<lambda>i. n \<le> length (drop i s) \<and> list_all p (take n (drop i s))) [0 ..< Suc (length s)]"







section \<open>What the regular expressions of the classifier test\<close>

lemma test_iff: "test r s \<longleftrightarrow> (\<exists>i\<le>length s. matches r (None, drop i s) \<noteq> [])"
  unfolding test_def list_ex_iff set_upt by (auto simp: less_Suc_eq_le)

lemma one_char_drop:
  "one_char p (c, drop i s) \<noteq> [] \<longleftrightarrow> i < length s \<and> p (s ! i)"
proof (cases "i < length s")
  case True
  then have "drop i s = s ! i # drop (Suc i) s" by (simp add: Cons_nth_drop_Suc)
  then show ?thesis using True by (simp add: one_char_def)
next
  case False
  then show ?thesis by (simp add: one_char_def)
qed

lemma test_Class: "test (Class items) s \<longleftrightarrow> (\<exists>c\<in>set s. list_ex (in_item c) items)"
proof -
  have "test (Class items) s \<longleftrightarrow> (\<exists>i<length s. list_ex (in_item (s ! i)) items)"
    by (auto simp: test_iff one_char_drop intro: less_imp_le)
  also have "\<dots> \<longleftrightarrow> (\<exists>c\<in>set s. list_ex (in_item c) items)"
    by (metis in_set_conv_nth)
  finally show ?thesis .
qed

lemma test_lowercases: "test regexps_lowercases s \<longleftrightarrow> (\<exists>c\<in>set s. is_lower c)"
  by (simp add: regexps_lowercases_def test_Class is_lower_def)

lemma test_uppercases: "test regexps_uppercases s \<longleftrightarrow> (\<exists>c\<in>set s. is_upper c)"
  by (simp add: regexps_uppercases_def test_Class is_upper_def)

lemma test_numbers: "test regexps_numbers s \<longleftrightarrow> (\<exists>c\<in>set s. is_digit c)"
  by (simp add: regexps_numbers_def test_Class)

lemma test_symbols: "test regexps_symbols s \<longleftrightarrow> (\<exists>c\<in>set s. \<not> is_word c \<or> c = 0x5F)"
  by (simp add: regexps_symbols_def test_Class)

lemma symbol_char: "(\<not> is_word c \<or> c = 0x5F) \<longleftrightarrow> \<not> (is_lower c \<or> is_upper c \<or> is_digit c)"
  by (auto simp: is_word_def is_lower_def is_upper_def is_digit_def)

section \<open>Patterns 5 and 8\<close>

lemma matches_Group_Class:
  "matches (Group (Class items)) (c, t) =
     (case t of [] \<Rightarrow> [] | x # xs \<Rightarrow> if list_ex (in_item x) items then [(Some [x], xs)] else [])"
  by (simp add: one_char_def split: list.split)

lemma matches_Group_Dot:
  "matches (Group Dot) (c, t) =
     (case t of [] \<Rightarrow> [] | x # xs \<Rightarrow> if \<not> is_line_terminator x then [(Some [x], xs)] else [])"
  by (simp add: one_char_def split: list.split)

lemma iterate_backref:
  assumes "iterate n backref (Some [x], t) \<noteq> []" and "0 < n"
  shows "\<exists>t'. t = x # t'"
proof -
  from \<open>0 < n\<close> obtain m where n: "n = Suc m" by (cases n) auto
  from assms(1) have "backref (Some [x], t) \<noteq> []" unfolding n by auto
  then show ?thesis by (cases t) (auto simp: backref_def split: if_splits)
qed

lemma Quant_backref:
  assumes "matches (Quant Backref lo None lz) (Some [x], t) \<noteq> []" and "0 < lo"
  shows "\<exists>t'. t = x # t'"
proof -
  from assms(1) obtain n where "lo \<le> n" and "iterate n backref (Some [x], t) \<noteq> []"
    by (auto simp del: upt_Suc)
  with \<open>0 < lo\<close> show ?thesis using iterate_backref [of n x t] by simp
qed

lemma repeated_pair:
  assumes "\<not> is_line_terminator x"
  shows "matches regexps_repeated (c, x # x # t) \<noteq> []"
proof -
  let ?st = "(Some [x], x # t)"
  have "?st \<in> set (iterate 0 (matches Dot) ?st)" by simp
  then have "?st \<in> set (matches (Quant Dot 0 None True) ?st)"
    by (simp del: upt_Suc iterate.simps) (metis atLeastLessThan_iff zero_le zero_less_Suc)
  moreover have "backref ?st = [(Some [x], t)]" by (simp add: backref_def)
  ultimately have "(Some [x], t) \<in> set (matches (Cat (Quant Dot 0 None True) Backref) ?st)"
    by (simp del: matches.simps(6) add: bexI [of _ ?st])
  moreover have "matches (Group Dot) (c, x # x # t) = [?st]"
    using assms by (simp del: matches.simps(3) add: matches_Group_Dot)
  ultimately have "(Some [x], t) \<in> set (matches regexps_repeated (c, x # x # t))"
    unfolding regexps_repeated_def by (simp del: matches.simps(3,6))
  then show ?thesis by auto
qed

lemma alnum_not_terminator:
  "list_ex (in_item x) [Range 0x41 0x5A, Range 0x61 0x7A, ClassD] \<Longrightarrow> \<not> is_line_terminator x"
  by (auto simp: is_line_terminator_def is_digit_def)

lemma identical_run_repeated:
  assumes "test (Cat (Group alnum) (Quant Backref lo None lz)) s" and "0 < lo"
  shows "test regexps_repeated s"
proof -
  from assms(1) obtain i where i: "i \<le> length s"
    and m: "matches (Cat (Group alnum) (Quant Backref lo None lz)) (None, drop i s) \<noteq> []"
    by (auto simp: test_iff)
  from m have "\<exists>x xs. drop i s = x # xs
      \<and> list_ex (in_item x) [Range 0x41 0x5A, Range 0x61 0x7A, ClassD]
      \<and> matches (Quant Backref lo None lz) (Some [x], xs) \<noteq> []"
    by (cases "drop i s")
      (auto simp del: matches.simps(3,6) simp add: alnum_def matches_Group_Class split: if_splits)
  then obtain x xs where d: "drop i s = x # xs"
    and a: "list_ex (in_item x) [Range 0x41 0x5A, Range 0x61 0x7A, ClassD]"
    and q: "matches (Quant Backref lo None lz) (Some [x], xs) \<noteq> []"
    by blast
  from q \<open>0 < lo\<close> obtain t where "xs = x # t" using Quant_backref by blast
  with d have "drop i s = x # x # t" by simp
  with repeated_pair [OF alnum_not_terminator [OF a], of None t]
  have "matches regexps_repeated (None, drop i s) \<noteq> []" by simp
  with i show ?thesis by (auto simp: test_iff)
qed

lemma without_5_and_8_patterns:
  "without_5_and_8 patterns =
     [patterns ! 0, patterns ! 1, patterns ! 2, patterns ! 3, patterns ! 5, patterns ! 6]"
  by (simp add: patterns_def without_5_and_8_def)

lemma common_without:
  assumes "\<not> test regexps_repeated s"
  shows "common patterns s = common (without_5_and_8 patterns) s"
proof -
  have "\<not> test (Cat (Group alnum) (Quant Backref 2 None False)) s"
    and "\<not> test (Cat (Group alnum) (Quant Backref 3 None False)) s"
    using assms identical_run_repeated by (fastforce)+
  then show ?thesis by (simp add: patterns_def without_5_and_8_def)
qed

text \<open>
  C5. Common patterns 5 and 8 are redundant: for every argument, \<open>evaluate\<close> with the
  full list of eight patterns returns what \<open>evaluate\<close> returns when patterns 5 (three or
  more consecutive identical alphanumeric characters) and 8 (four or more) are removed
  from the list. A string that matches one of them has two equal characters side by
  side, neither a line terminator, so \<open>regexps.repeated\<close> matches it and the rule before
  the loop has already returned.
\<close>

theorem patterns_5_and_8_redundant:
  "evaluate_with (without_5_and_8 patterns) this v = evaluate this v"
  by (simp add: evaluate_def evaluate_with_def common_without split: jsval.split)

theorem patterns_5_and_8_redundant_witness:
  "test (patterns ! 4) (js ''Paaass1$'') \<and>
   evaluate_with (without_5_and_8 patterns) default_toolkit (String (js ''Paaass1$'')) =
     Inr \<lparr> level = 4, quality = String (js ''high''),
           suggestion = String (js ''Avoid using repeated characters in the password.'') \<rparr>"
proof -
  have e: "evaluate default_toolkit (String (js ''Paaass1$'')) =
     Inr \<lparr> level = 4, quality = String (js ''high''),
           suggestion = String (js ''Avoid using repeated characters in the password.'') \<rparr>"
    by code_simp
  have "test (patterns ! 4) (js ''Paaass1$'')" by code_simp
  then show ?thesis unfolding patterns_5_and_8_redundant using e by simp
qed

section \<open>Settings and options that are plain objects\<close>

lemma Reflect_has_Object: "Reflect_has (Object ps) k = Inr (map_of ps k \<noteq> None)"
  by (simp add: map_of_eq_None_iff)

lemma has_and_Object:
  "has_and (Object ps) k rest = (if map_of ps k = None then Inr False else rest)"
  by (simp add: has_and_def bind_def map_of_eq_None_iff)

lemma has_and_Array: "has_and (Array xs) k rest = Inr False"
  by (simp add: has_and_def bind_def)

lemma bind_Inr: "bind (Inr x) f = f x"
  by (simp add: bind_def)

lemma bind_Inl: "bind (Inl e) f = Inl e"
  by (simp add: bind_def)

lemma constructor_default: "constructor Undefined = Inr default_toolkit"
  by (simp add: constructor_def default_toolkit_def has_and_Object bind_Inr)

lemma everyString_Array:
  "everyString (Array xs) = Inr (list_all (\<lambda>item. typeof item = ''string'') xs)"
  by simp

section \<open>The classifier\<close>

text \<open>
  C4. On the instance constructed with the default settings, \<open>evaluate("Ma$bel-561")\<close>
  returns level 5, the quality "perfect" (index 4 of the qualities) and the last
  suggestion (index 6): the password has at least 8 characters, a lowercase and an
  uppercase letter, a digit and a symbol, no two identical characters, and none of the
  8 common patterns matches it.
\<close>

theorem evaluate_Mabel:
  "constructor Undefined = Inr default_toolkit \<and>
   evaluate default_toolkit (String (js ''Ma$bel-561'')) =
     Inr \<lparr> level = 5, quality = String (js ''perfect''),
           suggestion = String (js ''Excellent! The password is secure.'') \<rparr> \<and>
   index (qualities default_toolkit) 4 = String (js ''perfect'') \<and>
   index (suggestions default_toolkit) 6 = String (js ''Excellent! The password is secure.'') \<and>
   8 \<le> length (js ''Ma$bel-561'') \<and>
   test regexps_lowercases (js ''Ma$bel-561'') \<and> test regexps_uppercases (js ''Ma$bel-561'') \<and>
   test regexps_numbers (js ''Ma$bel-561'') \<and> test regexps_symbols (js ''Ma$bel-561'') \<and>
   distinct (js ''Ma$bel-561'') \<and> \<not> test regexps_repeated (js ''Ma$bel-561'') \<and>
   length patterns = 8 \<and> list_all (\<lambda>p. \<not> test p (js ''Ma$bel-561'')) patterns"
proof -
  have "evaluate default_toolkit (String (js ''Ma$bel-561'')) =
     Inr \<lparr> level = 5, quality = String (js ''perfect''),
           suggestion = String (js ''Excellent! The password is secure.'') \<rparr>" by code_simp
  moreover have "index (qualities default_toolkit) 4 = String (js ''perfect'')"
    and "index (suggestions default_toolkit) 6 = String (js ''Excellent! The password is secure.'')"
    by (simp_all add: default_toolkit_def qualities_default_def suggestions_default_def index_def)
  moreover have "8 \<le> length (js ''Ma$bel-561'')" by (simp add: js_def)
  moreover have "test regexps_lowercases (js ''Ma$bel-561'')" by code_simp
  moreover have "test regexps_uppercases (js ''Ma$bel-561'')" by code_simp
  moreover have "test regexps_numbers (js ''Ma$bel-561'')" by code_simp
  moreover have "test regexps_symbols (js ''Ma$bel-561'')" by code_simp
  moreover have "distinct (js ''Ma$bel-561'')" by code_simp
  moreover have "\<not> test regexps_repeated (js ''Ma$bel-561'')" by code_simp
  moreover have "length patterns = 8" by (simp add: patterns_def)
  moreover have "list_all (\<lambda>p. \<not> test p (js ''Ma$bel-561'')) patterns" by code_simp
  ultimately show ?thesis using constructor_default by blast
qed











lemma alnum_item: "list_ex (in_item x) [Range 0x41 0x5A, Range 0x61 0x7A, ClassD] \<longleftrightarrow> is_alnum x"
  by (auto simp add: is_alnum_def is_letter_def is_upper_def is_lower_def)


lemma has_run_iff:
  "has_run p n s \<longleftrightarrow> (\<exists>i. i + n \<le> length s \<and> (\<forall>k<n. p (s ! (i + k))))"
proof -
  have A: "has_run p n s \<longleftrightarrow>
      (\<exists>i\<le>length s. n \<le> length (drop i s) \<and> list_all p (take n (drop i s)))"
    unfolding has_run_def list_ex_iff set_upt by (auto simp: less_Suc_eq_le)
  have B: "(n \<le> length (drop i s) \<and> list_all p (take n (drop i s))) \<longleftrightarrow>
        (i + n \<le> length s \<and> (\<forall>k<n. p (s ! (i + k))))" if "i \<le> length s" for i
    using that by (auto simp: list_all_length)
  show ?thesis
  proof
    assume "has_run p n s"
    then obtain i where "i \<le> length s" "n \<le> length (drop i s) \<and> list_all p (take n (drop i s))"
      unfolding A by blast
    with B show "\<exists>i. i + n \<le> length s \<and> (\<forall>k<n. p (s ! (i + k)))" by blast
  next
    assume "\<exists>i. i + n \<le> length s \<and> (\<forall>k<n. p (s ! (i + k)))"
    then obtain i where i: "i + n \<le> length s \<and> (\<forall>k<n. p (s ! (i + k)))" by blast
    then have "i \<le> length s" by simp
    with i B show "has_run p n s" unfolding A by blast
  qed
qed































lemma evaluate_after_digit:
  assumes "8 \<le> length password" and "\<exists>c\<in>set password. is_lower c"
    and "\<exists>c\<in>set password. is_upper c" and "\<exists>c\<in>set password. is_digit c"
  shows "evaluate this (String password) =
     (if \<not> test regexps_symbols password then
        Inr \<lparr> level = 3, quality = index (qualities this) 2, suggestion = index (suggestions this) 3 \<rparr>
      else if test regexps_repeated password then
        Inr \<lparr> level = 4, quality = index (qualities this) 3, suggestion = index (suggestions this) 4 \<rparr>
      else if common patterns password then
        Inr \<lparr> level = 4, quality = index (qualities this) 3, suggestion = index (suggestions this) 5 \<rparr>
      else
        Inr \<lparr> level = 5, quality = index (qualities this) 4, suggestion = index (suggestions this) 6 \<rparr>)"
  using assms
  by (simp add: evaluate_def evaluate_with_def test_lowercases test_uppercases test_numbers not_less)

text \<open>
  C1, as amended. For every password of at least 8 characters with a lowercase letter, an
  uppercase letter and a digit, \<open>evaluate\<close> returns level 3 with quality index 2 and
  suggestion index 3 exactly when every character of the password is an ASCII letter or
  digit. A symbol is whatever \<open>/[\W_]/\<close> matches: any character that is not an ASCII
  letter or digit, white space and the underscore included.
\<close>

theorem level_3_iff_only_letters_and_digits:
  assumes "8 \<le> length password" and "\<exists>c\<in>set password. is_lower c"
    and "\<exists>c\<in>set password. is_upper c" and "\<exists>c\<in>set password. is_digit c"
  shows "evaluate this (String password) =
           Inr \<lparr> level = 3, quality = index (qualities this) 2, suggestion = index (suggestions this) 3 \<rparr>
         \<longleftrightarrow> (\<forall>c\<in>set password. is_lower c \<or> is_upper c \<or> is_digit c)"
proof -
  have "\<not> test regexps_symbols password \<longleftrightarrow> (\<forall>c\<in>set password. is_lower c \<or> is_upper c \<or> is_digit c)"
    by (simp only: test_symbols symbol_char) blast
  then show ?thesis
    unfolding evaluate_after_digit [OF assms] by simp
qed

theorem level_3_witness:
  "8 \<le> length (js ''Abcdefg1'') \<and>
   evaluate default_toolkit (String (js ''Abcdefg1'')) =
     Inr \<lparr> level = 3, quality = String (js ''medium''),
           suggestion = String (js ''Add symbols to make the password more secure.'') \<rparr>"
proof -
  have h1: "8 \<le> length (js ''Abcdefg1'')" by (simp add: js_def)
  have h2: "\<exists>c\<in>set (js ''Abcdefg1''). is_lower c" by code_simp
  have h3: "\<exists>c\<in>set (js ''Abcdefg1''). is_upper c" by code_simp
  have h4: "\<exists>c\<in>set (js ''Abcdefg1''). is_digit c" by code_simp
  have h5: "\<forall>c\<in>set (js ''Abcdefg1''). is_lower c \<or> is_upper c \<or> is_digit c" by code_simp
  have q: "index (qualities default_toolkit) 2 = String (js ''medium'')"
    and s: "index (suggestions default_toolkit) 3 = String (js ''Add symbols to make the password more secure.'')"
    by (simp_all add: default_toolkit_def qualities_default_def suggestions_default_def index_def)
  from level_3_iff_only_letters_and_digits [OF h1 h2 h3 h4, of default_toolkit] h5
  have "evaluate default_toolkit (String (js ''Abcdefg1'')) =
     Inr \<lparr> level = 3, quality = index (qualities default_toolkit) 2,
           suggestion = index (suggestions default_toolkit) 3 \<rparr>" by blast
  with h1 show ?thesis by (simp only: q s)
qed

text \<open>
  C1 as stated fails: \<open>"Abcdef 1"\<close> has no non-word, non-space character, and
  \<open>evaluate\<close> does not return level 3 for it, because the space is a symbol for
  \<open>/[\W_]/\<close>.
\<close>

theorem space_is_a_symbol_counterexample:
  "8 \<le> length (js ''Abcdef 1'') \<and> list_ex is_lower (js ''Abcdef 1'') \<and>
   list_ex is_upper (js ''Abcdef 1'') \<and> list_ex is_digit (js ''Abcdef 1'') \<and>
   \<not> list_ex non_word_non_space (js ''Abcdef 1'') \<and>
   evaluate default_toolkit (String (js ''Abcdef 1'')) \<noteq>
     Inr \<lparr> level = 3, quality = index (qualities default_toolkit) 2,
           suggestion = index (suggestions default_toolkit) 3 \<rparr>"
proof -
  have "level (projr (evaluate default_toolkit (String (js ''Abcdef 1'')))) = 4" by code_simp
  then have "evaluate default_toolkit (String (js ''Abcdef 1'')) \<noteq>
     Inr \<lparr> level = 3, quality = index (qualities default_toolkit) 2,
           suggestion = index (suggestions default_toolkit) 3 \<rparr>" by auto
  moreover have "8 \<le> length (js ''Abcdef 1'')" by (simp add: js_def)
  moreover have "list_ex is_lower (js ''Abcdef 1'')" by code_simp
  moreover have "list_ex is_upper (js ''Abcdef 1'')" by code_simp
  moreover have "list_ex is_digit (js ''Abcdef 1'')" by code_simp
  moreover have "\<not> list_ex non_word_non_space (js ''Abcdef 1'')" by code_simp
  ultimately show ?thesis by blast
qed

section \<open>The constructor\<close>

text \<open>
  C8. Given settings whose \<open>suggestions\<close> is an array (and whose \<open>qualities\<close> and
  \<open>maximum\<close>, when present, are an array and a number), the constructor throws the
  TypeError of the element check when an element of \<open>suggestions\<close> is not a string,
  whatever the length of the array, 7 included; when all elements are strings (and those
  of \<open>qualities\<close> too) and the length is not 7, so for 6 and for 8, it throws the
  RangeError of the length check. The element check comes before the length check.
\<close>

theorem constructor_suggestions:
  assumes "map_of ps ''suggestions'' = Some (Array xs)"
    and "map_of ps ''qualities'' = None \<or> (\<exists>ys. map_of ps ''qualities'' = Some (Array ys))"
    and "map_of ps ''maximum'' = None \<or> (\<exists>n. map_of ps ''maximum'' = Some (Number n))"
  shows \<open>(\<not> list_all (\<lambda>item. typeof item = ''string'') xs \<longrightarrow>
            constructor (Object ps) = Inl (TypeError ''All "suggestions" values must be a string type.'')) \<and>
         (list_all (\<lambda>item. typeof item = ''string'') xs \<and> length xs \<noteq> 7 \<and>
          (\<forall>ys. map_of ps ''qualities'' = Some (Array ys) \<longrightarrow> list_all (\<lambda>item. typeof item = ''string'') ys) \<longrightarrow>
            constructor (Object ps) = Inl (RangeError ''The "suggestions" elements number must be equal to 7.''))\<close>
  using assms
  by (auto simp del: Reflect_has.simps everyString.simps
      simp add: constructor_def has_and_Object bind_Inr bind_Inl everyString_Array)

theorem constructor_suggestions_witness:
  \<open>constructor (Object [(''suggestions'', Array (replicate 6 (String (js ''tip''))))]) =
     Inl (RangeError ''The "suggestions" elements number must be equal to 7.'') \<and>
   constructor (Object [(''suggestions'', Array (replicate 8 (String (js ''tip''))))]) =
     Inl (RangeError ''The "suggestions" elements number must be equal to 7.'') \<and>
   constructor (Object [(''suggestions'', Array (replicate 6 (String (js ''tip'')) @ [Number (Fin 2)]))]) =
     Inl (TypeError ''All "suggestions" values must be a string type.'')\<close>
  using constructor_suggestions [where ps = "[(''suggestions'', Array (replicate 6 (String (js ''tip''))))]"
       and xs = "replicate 6 (String (js ''tip''))"]
    constructor_suggestions [where ps = "[(''suggestions'', Array (replicate 8 (String (js ''tip''))))]"
       and xs = "replicate 8 (String (js ''tip''))"]
    constructor_suggestions [where ps = "[(''suggestions'', Array (replicate 6 (String (js ''tip'')) @ [Number (Fin 2)]))]"
       and xs = "replicate 6 (String (js ''tip'')) @ [Number (Fin 2)]"]
  by (simp add: list_all_iff)

text \<open>
  C10. Constructing an instance with \<open>maximum: 0\<close> succeeds and yields the instance of
  the default settings, whose maximum is 30, since \<open>settings.maximum || 30\<close> takes the
  default for every falsy maximum. On that instance \<open>checkOptions\<close> accepts every size
  from 1 to 30.
\<close>

theorem constructor_maximum_0:
  "constructor (Object [(''maximum'', Number (Fin 0))]) = Inr default_toolkit \<and>
   maximum default_toolkit = Fin 30 \<and>
   (1 \<le> q \<and> q \<le> 30 \<longrightarrow>
      checkOptions h default_toolkit (Object [(''size'', Number (Fin q)), (''numbers'', Bool True)])
        = Inr \<lparr> ok = True, reason = Null \<rparr>)"
  by (simp add: constructor_def default_toolkit_def has_and_Object bind_Inr
      checkOptions_def less_than_def greater_than_def not_boolean_def)

theorem constructor_maximum_0_witness:
  "checkOptions some_host default_toolkit (Object [(''size'', Number (Fin 30)), (''numbers'', Bool True)])
        = Inr \<lparr> ok = True, reason = Null \<rparr>"
  using constructor_maximum_0 [of 30 some_host] by simp

section \<open>checkOptions\<close>

lemma typeof_boolean: "typeof v = ''boolean'' \<longleftrightarrow> (\<exists>b. v = Bool b)"
  by (cases v) auto

lemma not_boolean_Object:
  "not_boolean (Object ps) k = Inr (\<not> boolean_or_absent ps k)"
  by (auto simp: not_boolean_def has_and_Object boolean_or_absent_def split: option.splits)

lemma truthy_flag:
  "boolean_or_absent ps k \<Longrightarrow> truthy (get (Object ps) k) \<longleftrightarrow> map_of ps k = Some (Bool True)"
  by (auto simp: boolean_or_absent_def typeof_boolean split: option.splits)

lemma checkOptions_not_object:
  "(\<forall>ps. options \<noteq> Object ps) \<Longrightarrow> checkOptions h this options \<noteq> Inr \<lparr> ok = True, reason = Null \<rparr>"
  by (cases options) (simp_all add: checkOptions_def invalid_def bind_Inl bind_Inr)

lemma checkOptions_Object:
  "checkOptions h this (Object ps) = Inr \<lparr> ok = True, reason = Null \<rparr> \<longleftrightarrow>
     (\<exists>v. map_of ps ''size'' = Some v \<and> less_than h v (Fin 1) = Inr False
          \<and> greater_than h v (maximum this) = Inr False) \<and>
     list_all (boolean_or_absent ps) flags \<and>
     list_ex (\<lambda>k. map_of ps k = Some (Bool True)) flags"
proof (cases "map_of ps ''size''")
  case None
  then show ?thesis
    by (simp del: Reflect_has.simps add: checkOptions_def Reflect_has_Object bind_Inr invalid_def)
next
  case (Some v)
  show ?thesis
  proof (cases "less_than h v (Fin 1) = Inr False \<and> greater_than h v (maximum this) = Inr False")
    case True
    show ?thesis
    proof (cases "list_all (boolean_or_absent ps) flags")
      case all: True
      then have t: "\<And>k. k \<in> set flags \<Longrightarrow> truthy (get (Object ps) k) \<longleftrightarrow> map_of ps k = Some (Bool True)"
        using truthy_flag by (simp add: list_all_iff)
      have gs: "get (Object ps) ''size'' = v" by (simp add: Some)
      from all Some True show ?thesis
        by (simp del: Reflect_has.simps get.simps
            add: checkOptions_def Reflect_has_Object bind_Inr invalid_def not_boolean_Object
              t gs flags_def)
    next
      case False
      with Some True show ?thesis
        by (auto simp del: Reflect_has.simps
            simp add: checkOptions_def Reflect_has_Object bind_Inr invalid_def not_boolean_Object flags_def)
    qed
  next
    case False
    with Some show ?thesis
      by (cases "less_than h v (Fin 1)"; cases "greater_than h v (maximum this)")
        (auto simp del: Reflect_has.simps
          simp add: checkOptions_def Reflect_has_Object bind_Inr bind_Inl invalid_def)
  qed
qed

lemma checkOptions_finite_size:
  assumes "map_of ps ''size'' = Some (Number (Fin q))" and "maximum this = Fin m"
  shows "checkOptions h this (Object ps) = Inr \<lparr> ok = True, reason = Null \<rparr> \<longleftrightarrow>
           1 \<le> q \<and> q \<le> m \<and> list_all (boolean_or_absent ps) flags \<and>
           list_ex (\<lambda>k. map_of ps k = Some (Bool True)) flags"
  unfolding checkOptions_Object using assms
  by (auto simp: less_than_def greater_than_def)

text \<open>
  So a request is accepted exactly when it is a plain object whose size is neither below
  1 nor above the maximum and whose flags, when present, are booleans of which one is
  \<open>true\<close>; for a size and a maximum that are finite Numbers this is
  \<open>1 \<le> size \<le> maximum\<close>, both bounds included.
\<close>

text \<open>
  C7, as amended. \<open>checkOptions\<close> runs its checks in the order of section 4.2 and stops
  at the first failure. For every instance, options whose size is 0 are rejected with the
  reason "greater than 1", whatever their flags. For every instance whose maximum is a
  finite number, options whose size is a number that is at least 1 and greater than the
  maximum are rejected with the reason "less than specified maximum", whatever their
  flags; \<open>maximum + 1\<close> is such a size when the maximum is not negative and the sum is
  exact (the rounding of doubles is not modelled: \<open>m + 1\<close> below is the exact sum).
\<close>

theorem size_checks_first:
  "(map_of ps ''size'' = Some (Number (Fin 0)) \<longrightarrow>
      checkOptions h this (Object ps) =
        Inr \<lparr> ok = False, reason = String (js ''The password length must be greater than 1.'') \<rparr>) \<and>
   (map_of ps ''size'' = Some (Number (Fin q)) \<and> maximum this = Fin m \<and> 1 \<le> q \<and> m < q \<longrightarrow>
      checkOptions h this (Object ps) =
        Inr \<lparr> ok = False,
              reason = String (js ''The password length must be less than specified maximum.'') \<rparr>) \<and>
   (map_of ps ''size'' = Some (Number (Fin (m + 1))) \<and> maximum this = Fin m \<and> 0 \<le> m \<longrightarrow>
      checkOptions h this (Object ps) =
        Inr \<lparr> ok = False,
              reason = String (js ''The password length must be less than specified maximum.'') \<rparr>)"
  by (simp del: Reflect_has.simps
      add: checkOptions_def Reflect_has_Object bind_Inr less_than_def greater_than_def invalid_def)

theorem size_checks_first_witness:
  "checkOptions some_host default_toolkit (Object [(''size'', Number (Fin 0))]) =
     Inr \<lparr> ok = False, reason = String (js ''The password length must be greater than 1.'') \<rparr> \<and>
   checkOptions some_host default_toolkit (Object [(''size'', Number (Fin 50))]) =
     Inr \<lparr> ok = False,
           reason = String (js ''The password length must be less than specified maximum.'') \<rparr> \<and>
   checkOptions some_host default_toolkit (Object [(''size'', Number (Fin (30 + 1)))]) =
     Inr \<lparr> ok = False,
           reason = String (js ''The password length must be less than specified maximum.'') \<rparr>"
  using size_checks_first [where ps = "[(''size'', Number (Fin 0))]" and h = some_host
        and this = default_toolkit and m = 30 and q = 50]
    size_checks_first [where ps = "[(''size'', Number (Fin 50))]" and h = some_host
        and this = default_toolkit and m = 30 and q = 50]
    size_checks_first [where ps = "[(''size'', Number (Fin (30 + 1)))]" and h = some_host
        and this = default_toolkit and m = 30 and q = 31]
  by (simp add: default_toolkit_def)

text \<open>
  C7 as stated, for every instance, fails: the constructor accepts \<open>maximum: -5\<close>, and
  on that instance size \<open>maximum + 1 = -4\<close> is rejected by the first size check, with
  the reason "greater than 1".
\<close>

theorem negative_maximum_counterexample:
  "constructor (Object [(''maximum'', Number (Fin (- 5)))]) =
     Inr \<lparr> suggestions = suggestions_default, qualities = qualities_default, maximum = Fin (- 5) \<rparr> \<and>
   checkOptions some_host
     \<lparr> suggestions = suggestions_default, qualities = qualities_default, maximum = Fin (- 5) \<rparr>
     (Object [(''size'', Number (Fin (- 5 + 1)))]) =
     Inr \<lparr> ok = False, reason = String (js ''The password length must be greater than 1.'') \<rparr>"
  by (simp add: constructor_def has_and_Object bind_Inr
      checkOptions_def less_than_def greater_than_def invalid_def)

text \<open>
  C6. \<open>checkOptions\<close> should accept a request exactly when it is an object with a size
  from 1 to the maximum and boolean flags of which one is true. It compares the size
  with \<open><\<close> and \<open>>\<close> only and never checks its type, as it does for the flags: a size
  of NaN passes both comparisons and the request is accepted.
\<close>

theorem checkOptions_accepts_NaN:
  "checkOptions h default_toolkit (Object [(''size'', Number NaN), (''numbers'', Bool True)]) =
     Inr \<lparr> ok = True, reason = Null \<rparr>"
  by (simp add: checkOptions_def default_toolkit_def bind_Inr less_than_def greater_than_def
      not_boolean_def has_and_Object)

section \<open>generate\<close>

lemma generate_null_iff:
  "generate h random this options = Inr Null \<longleftrightarrow>
     (\<exists>r. checkOptions h this options = Inr r \<and> \<not> ok r)"
proof (cases "checkOptions h this options")
  case (Inl e)
  then show ?thesis by (simp add: generate_def bind_Inl)
next
  case (Inr r)
  then show ?thesis
    by (cases "Array_of (get options ''size'')")
      (simp_all add: generate_def bind_Inl bind_Inr Let_def)
qed

lemma getRandomNumber_range:
  assumes "0 \<le> multiply h r (of_nat n)" and "multiply h r (of_nat n) < of_nat n"
  shows "0 \<le> getRandomNumber h r n \<and> nat (getRandomNumber h r n) < n"
proof -
  from assms have "0 \<le> \<lfloor>multiply h r (of_nat n)\<rfloor>" and "\<lfloor>multiply h r (of_nat n)\<rfloor> < int n"
    by (simp_all add: floor_less_iff)
  then show ?thesis
    unfolding getRandomNumber_def by linarith
qed

lemma join_chars: "join (map (\<lambda>k. String [f k]) ks) = map f ks"
  by (induction ks) simp_all

lemma Array_of_nat:
  assumes "n < 2 ^ 32"
  shows "Array_of (Number (Fin (of_nat n))) = Inr (replicate n Undefined)"
proof -
  have "(of_nat n :: rat) < of_nat (2 ^ 32)" using assms by (simp only: of_nat_less_iff)
  then have "(of_nat n :: rat) < 2 ^ 32" by simp
  then show ?thesis by simp
qed

lemma alphabets_nonempty:
  "numbers \<noteq> []" "symbols \<noteq> []" "uppercases \<noteq> []" "lowercases \<noteq> []"
  by (simp_all add: numbers_def symbols_def uppercases_def lowercases_def js_def)

lemma chars_of_accepted:
  assumes "checkOptions h this options = Inr \<lparr> ok = True, reason = Null \<rparr>"
  shows "set (charsToArray (getSelectedChars options)) = alphabet_of options"
    and "charsToArray (getSelectedChars options) \<noteq> []"
proof -
  from assms obtain ps where o: "options = Object ps"
    using checkOptions_not_object by blast
  from assms have b: "list_all (boolean_or_absent ps) flags"
    and e: "list_ex (\<lambda>k. map_of ps k = Some (Bool True)) flags"
    unfolding o checkOptions_Object by simp_all
  have t: "truthy (get options k) \<longleftrightarrow> get options k = Bool True" if "k \<in> set flags" for k
  proof -
    from b that have "boolean_or_absent ps k" by (simp add: list_all_iff)
    then show ?thesis
      unfolding o by (cases "map_of ps k") (auto simp: boolean_or_absent_def typeof_boolean)
  qed
  have t4: "truthy (get options ''numbers'') \<longleftrightarrow> get options ''numbers'' = Bool True"
    "truthy (get options ''symbols'') \<longleftrightarrow> get options ''symbols'' = Bool True"
    "truthy (get options ''uppercases'') \<longleftrightarrow> get options ''uppercases'' = Bool True"
    "truthy (get options ''lowercases'') \<longleftrightarrow> get options ''lowercases'' = Bool True"
    by (rule t, simp add: flags_def)+
  show "set (charsToArray (getSelectedChars options)) = alphabet_of options"
    by (auto simp: charsToArray_def getSelectedChars_def alphabet_of_def t4)
  from e have "get options ''numbers'' = Bool True \<or> get options ''symbols'' = Bool True
      \<or> get options ''uppercases'' = Bool True \<or> get options ''lowercases'' = Bool True"
    unfolding o by (auto simp: flags_def)
  then show "charsToArray (getSelectedChars options) \<noteq> []"
    by (auto simp: charsToArray_def getSelectedChars_def t4 alphabets_nonempty)
qed

lemma generate_password:
  assumes ok: "checkOptions h this options = Inr \<lparr> ok = True, reason = Null \<rparr>"
    and size: "get options ''size'' = Number (Fin (of_nat n))" and n: "n < 2 ^ 32"
    and rnd: "\<forall>k m. 0 < m \<longrightarrow>
        0 \<le> multiply h (random k) (of_nat m) \<and> multiply h (random k) (of_nat m) < of_nat m"
  shows "\<exists>password. generate h random this options = Inr (String password)
           \<and> length password = n \<and> set password \<subseteq> alphabet_of options"
proof -
  define chars where "chars = charsToArray (getSelectedChars options)"
  define pick where "pick k = nat (getRandomNumber h (random k) (length chars))" for k
  from chars_of_accepted [OF ok] have cs: "set chars = alphabet_of options" and ne: "chars \<noteq> []"
    by (simp_all add: chars_def)
  have r: "0 \<le> getRandomNumber h (random k) (length chars) \<and> pick k < length chars" for k
    using getRandomNumber_range [of h "random k" "length chars"] rnd ne by (simp add: pick_def)
  then have c: "char_at chars (getRandomNumber h (random k) (length chars)) = String [chars ! pick k]" for k
    by (simp add: char_at_def pick_def)
  have "generate h random this options = Inr (String (map (\<lambda>k. chars ! pick k) [0 ..< n]))"
    by (simp del: Array_of.simps
        add: generate_def ok bind_Inr size Array_of_nat [OF n] fill_def Let_def
          chars_def [symmetric] c join_chars)
  moreover have "set (map (\<lambda>k. chars ! pick k) [0 ..< n]) \<subseteq> alphabet_of options"
    using r cs by (auto simp del: upt_Suc)
  ultimately show ?thesis by simp
qed

text \<open>
  So \<open>generate\<close> returns null exactly when \<open>checkOptions\<close> returns \<open>ok: false\<close>,
  and for an accepted request whose size is an integer below \<open>2^32\<close> it returns a
  string of that many characters, all from the alphabets whose flags are \<open>true\<close>,
  whatever \<open>Math.random()\<close> returns, as long as the product of a draw and a positive
  size, as the host rounds it, is at least 0 and below the size.
\<close>

lemma Array_of_fraction: "Array_of (Number (Fin (5 / 2))) = Inl (RangeError ''Invalid array length'')"
  by code_simp

lemma Array_of_fraction_7_2: "Array_of (Number (Fin (7 / 2))) = Inl (RangeError ''Invalid array length'')"
  by code_simp

text \<open>
  C3. When \<open>checkOptions\<close> returns \<open>ok: true\<close>, \<open>generate\<close> should return a string
  and throw nothing. For the size 2.5 \<open>checkOptions\<close> returns \<open>ok: true\<close> and
  \<open>generate\<close> throws the RangeError of \<open>Array(2.5)\<close>.
\<close>

theorem generate_throws_on_fraction:
  "checkOptions h default_toolkit (Object [(''size'', Number (Fin (5 / 2))), (''numbers'', Bool True)]) =
     Inr \<lparr> ok = True, reason = Null \<rparr> \<and>
   generate h random default_toolkit (Object [(''size'', Number (Fin (5 / 2))), (''numbers'', Bool True)]) =
     Inl (RangeError ''Invalid array length'')"
  by (simp del: Array_of.simps
      add: generate_def checkOptions_def default_toolkit_def bind_Inr bind_Inl less_than_def
      greater_than_def not_boolean_def has_and_Object Array_of_fraction)

text \<open>
  C2. For a request that \<open>checkOptions\<close> accepts, \<open>generate\<close> should return a string
  of \<open>request.size\<close> characters. The request of size 3.5 with lowercase letters is
  accepted, and \<open>generate\<close> returns no string for it, whatever the random draws.
\<close>

theorem generate_no_password_for_fraction:
  "checkOptions h default_toolkit (Object [(''size'', Number (Fin (7 / 2))), (''lowercases'', Bool True)]) =
     Inr \<lparr> ok = True, reason = Null \<rparr> \<and>
   generate h random default_toolkit (Object [(''size'', Number (Fin (7 / 2))), (''lowercases'', Bool True)]) =
     Inl (RangeError ''Invalid array length'')"
  by (simp del: Array_of.simps
      add: generate_def checkOptions_def default_toolkit_def bind_Inr bind_Inl less_than_def
      greater_than_def not_boolean_def has_and_Object Array_of_fraction_7_2)

end
